theory Spec2Isabelle
  imports Main "HOL-Library.Word"
begin

unbundle bit_operations_syntax

section \<open>The LC-3 simulator core: \<open>source/LC3.c\<close>\<close>

text \<open>
  A shallow embedding of \<open>setcc\<close> and \<open>execute_next\<close>; \<open>print_state\<close> only displays
  the state and is left out. The C integer types are words:
  \<open>uint16_t\<close> is \<open>16 word\<close>, and an \<open>int16_t\<close> is a \<open>16 word\<close> read through \<open>sint\<close>.
  C promotes both to \<open>int\<close> (at least 32 bits on every host that has curses) before it
  adds them, so a sum that is used directly as an array index is the mathematical sum
  \<open>uint a + sint b\<close>, and a sum that is stored into a \<open>uint16_t\<close> is that sum reduced
  modulo \<open>2 ^ 16\<close>. An array access outside the array is undefined behaviour in C; the
  embedding makes it a fault, and a faulting step has no post-state.
\<close>

subsection \<open>State\<close>

type_synonym uint16 = "16 word"

text \<open>
  Modelled from the spec: \<open>LC3.h\<close> (\<open>struct LC3\<close>) is not among the sources. The fields are
  the ones \<open>LC3.c\<close> uses, with the sizes of the data model: 65536 memory cells, of which
  only the \<open>value\<close> member is used, 8 registers, 16-bit \<open>PC\<close> and \<open>IR\<close>, \<open>CC\<close> an
  \<open>unsigned char\<close>. The arrays are functions on indices; the accessors below check the
  index against the array's size, and no cell outside it is ever consulted.
\<close>

record LC3 =
  memory :: "nat \<Rightarrow> uint16"
  registers :: "nat \<Rightarrow> uint16"
  PC :: uint16
  IR :: uint16
  CC :: char
  isHalted :: bool

definition KBSR :: uint16 where "KBSR = 0xFE00"
definition KBDR :: uint16 where "KBDR = 0xFE02"
definition DSR :: uint16 where "DSR = 0xFE04"
definition DDR :: uint16 where "DDR = 0xFE06"
definition MCR :: uint16 where "MCR = 0xFFFE"

text \<open>
  Modelled from the spec: \<open>Enums.h\<close> is not among the sources. The opcode numbers are those
  of the LC-3 instruction set, which the spec's encodings \<open>0x1042\<close> (ADD) and \<open>0x5183\<close>
  (AND) follow; 8 and 13 are the two opcodes without a \<open>case\<close>. The names \<open>AND\<close>, \<open>NOT\<close>
  and \<open>STR\<close> are taken by the logic's syntax and carry a suffix.
\<close>

definition BR :: nat where "BR = 0"
definition ADD :: nat where "ADD = 1"
definition LD :: nat where "LD = 2"
definition ST :: nat where "ST = 3"
definition JSR :: nat where "JSR = 4"
definition AND_op :: nat where "AND_op = 5"
definition LDR :: nat where "LDR = 6"
definition STR_op :: nat where "STR_op = 7"
definition NOT_op :: nat where "NOT_op = 9"
definition LDI :: nat where "LDI = 10"
definition STI :: nat where "STI = 11"
definition JMP :: nat where "JMP = 12"
definition LEA :: nat where "LEA = 14"
definition TRAP :: nat where "TRAP = 15"

subsection \<open>Faults and checked array access\<close>

datatype fault =
  MemoryOutOfBounds int
  | RegisterOutOfBounds int
  | BlockedForever

definition and_then :: "fault + 'a \<Rightarrow> ('a \<Rightarrow> fault + 'b) \<Rightarrow> fault + 'b" where
  "and_then r f = (case r of Inl e \<Rightarrow> Inl e | Inr x \<Rightarrow> f x)"

definition mem_load :: "LC3 \<Rightarrow> int \<Rightarrow> fault + uint16" where
  "mem_load s i =
     (if 0 \<le> i \<and> i < 65536 then Inr (memory s (nat i)) else Inl (MemoryOutOfBounds i))"

definition mem_store :: "LC3 \<Rightarrow> int \<Rightarrow> uint16 \<Rightarrow> fault + LC3" where
  "mem_store s i v =
     (if 0 \<le> i \<and> i < 65536 then Inr (s\<lparr>memory := (memory s)(nat i := v)\<rparr>)
      else Inl (MemoryOutOfBounds i))"

definition reg_load :: "LC3 \<Rightarrow> int \<Rightarrow> fault + uint16" where
  "reg_load s i =
     (if 0 \<le> i \<and> i < 8 then Inr (registers s (nat i)) else Inl (RegisterOutOfBounds i))"

definition reg_store :: "LC3 \<Rightarrow> int \<Rightarrow> uint16 \<Rightarrow> fault + LC3" where
  "reg_store s i v =
     (if 0 \<le> i \<and> i < 8 then Inr (s\<lparr>registers := (registers s)(nat i := v)\<rparr>)
      else Inl (RegisterOutOfBounds i))"

subsection \<open>The curses window\<close>

text \<open>
  The console is the curses library, outside the repository. Its model keeps what the
  simulator can observe: the read delay set by \<open>wtimeout\<close> (negative: a read blocks),
  the results the coming \<open>wgetch\<close> calls will deliver, and the calls made so far, in
  order. A blocking read with nothing to deliver never returns; a non-blocking one
  returns \<open>ERR\<close>.
\<close>

datatype call = Wtimeout int | Wgetch int | Wechochar uint16

record WINDOW =
  delay :: int
  pending :: "int list"
  calls :: "call list"

definition ERR :: int where "ERR = -1"

definition wtimeout :: "WINDOW \<Rightarrow> int \<Rightarrow> WINDOW" where
  "wtimeout w d = w\<lparr>delay := d, calls := calls w @ [Wtimeout d]\<rparr>"

definition wgetch :: "WINDOW \<Rightarrow> fault + int \<times> WINDOW" where
  "wgetch w =
     (case pending w of
        [] \<Rightarrow> if delay w < 0 then Inl BlockedForever
              else Inr (ERR, w\<lparr>calls := calls w @ [Wgetch ERR]\<rparr>)
      | c # cs \<Rightarrow> Inr (c, w\<lparr>pending := cs, calls := calls w @ [Wgetch c]\<rparr>))"

definition wechochar :: "WINDOW \<Rightarrow> uint16 \<Rightarrow> WINDOW" where
  "wechochar w ch = w\<lparr>calls := calls w @ [Wechochar ch]\<rparr>"

subsection \<open>Condition codes and bit fields\<close>

text \<open>\<open>setcc\<close>, lines 18 to 23: the value behind \<open>last_result\<close> decides the new \<open>CC\<close>.\<close>

definition setcc :: "uint16 \<Rightarrow> char" where
  "setcc last_result =
     (if last_result = 0 then CHR ''Z''
      else if sint last_result < 0 then CHR ''N''
      else CHR ''P'')"

text \<open>
  \<open>((int16_t) ((IR & m) << k)) >> k\<close>: the masked field is moved up by \<open>k\<close> bits,
  cut to 16 bits, and moved back down with the sign bit copied in.
\<close>

definition shifted_field :: "uint16 \<Rightarrow> nat \<Rightarrow> uint16 \<Rightarrow> uint16" where
  "shifted_field m k ir = signed_drop_bit k (push_bit k (ir AND m))"

definition PCoffset9 :: "uint16 \<Rightarrow> uint16" where
  "PCoffset9 ir = shifted_field 0x1ff 7 ir"

definition PCoffset6 :: "uint16 \<Rightarrow> uint16" where
  "PCoffset6 ir = shifted_field 0x3f 9 ir"

definition PCoffset11 :: "uint16 \<Rightarrow> uint16" where
  "PCoffset11 ir = shifted_field 0x7ff 5 ir"

text \<open>\<open>(IR >> k) & 7\<close>, a register number.\<close>

definition reg_field :: "uint16 \<Rightarrow> nat \<Rightarrow> int" where
  "reg_field ir k = uint (drop_bit k ir AND 7)"

definition opcode_of :: "uint16 \<Rightarrow> nat" where
  "opcode_of ir = unat (drop_bit 12 (ir AND 0xf000))"

text \<open>Storing an \<open>int\<close> into a \<open>uint16_t\<close>.\<close>

definition to_uint16 :: "int \<Rightarrow> uint16" where
  "to_uint16 i = word_of_int i"

subsection \<open>\<open>execute_next\<close>, lines 62 to 220\<close>

text \<open>\<open>setcc(DR, &simulator->CC)\<close>: the register behind \<open>DR\<close> is read back.\<close>

definition flag_cc :: "LC3 \<Rightarrow> int \<Rightarrow> fault + LC3" where
  "flag_cc s dr =
     and_then (reg_load s dr) (\<lambda>last_result.
     Inr (s\<lparr>CC := setcc last_result\<rparr>))"

text \<open>\<open>*DR = v; setcc(DR, &simulator->CC)\<close>.\<close>

definition write_DR :: "WINDOW \<Rightarrow> LC3 \<Rightarrow> int \<Rightarrow> uint16 \<Rightarrow> fault + WINDOW \<times> LC3" where
  "write_DR output s dr v =
     and_then (reg_store s dr v) (\<lambda>s1.
     and_then (flag_cc s1 dr) (\<lambda>s2.
     Inr (output, s2)))"

text \<open>Line 69: the fetch.\<close>

definition fetch :: "LC3 \<Rightarrow> fault + LC3" where
  "fetch s =
     and_then (mem_load s (uint (PC s))) (\<lambda>v.
     Inr (s\<lparr>IR := v, PC := PC s + 1\<rparr>))"

text \<open>Lines 76 to 79.\<close>

definition case_TRAP :: "WINDOW \<Rightarrow> LC3 \<Rightarrow> fault + WINDOW \<times> LC3" where
  "case_TRAP output s =
     and_then (reg_store s 7 (PC s)) (\<lambda>s1.
     and_then (mem_load s1 (uint (IR s1 AND 0xff))) (\<lambda>v.
     Inr (output, s1\<lparr>PC := v\<rparr>)))"

text \<open>Lines 80 to 89.\<close>

definition case_LEA :: "WINDOW \<Rightarrow> LC3 \<Rightarrow> fault + WINDOW \<times> LC3" where
  "case_LEA output s =
     (let DR = reg_field (IR s) 9;
          PCoffset = PCoffset9 (IR s)
      in write_DR output s DR (to_uint16 (uint (PC s) + sint PCoffset)))"

text \<open>Lines 90 to 109.\<close>

definition case_LDI :: "WINDOW \<Rightarrow> LC3 \<Rightarrow> fault + WINDOW \<times> LC3" where
  "case_LDI output s =
     (let DR = reg_field (IR s) 9;
          PCoffset = PCoffset9 (IR s)
      in and_then (mem_load s (uint (PC s) + sint PCoffset)) (\<lambda>a.
         and_then
           (if a = KBDR then
              and_then (wgetch (wtimeout output (- 1))) (\<lambda>(ch, out1).
              and_then (reg_store s DR (to_uint16 ch)) (\<lambda>s1.
              Inr (wtimeout out1 0, s1)))
            else
              and_then (mem_load s (uint (PC s) + sint PCoffset)) (\<lambda>a1.
              and_then (mem_load s (uint a1)) (\<lambda>v.
              and_then (reg_store s DR v) (\<lambda>s1.
              Inr (output, s1))))) (\<lambda>(out2, s2).
         and_then (flag_cc s2 DR) (\<lambda>s3.
         Inr (out2, s3)))))"

text \<open>Lines 110 to 120.\<close>

definition case_NOT :: "WINDOW \<Rightarrow> LC3 \<Rightarrow> fault + WINDOW \<times> LC3" where
  "case_NOT output s =
     (let DR = reg_field (IR s) 9
      in and_then (reg_load s (reg_field (IR s) 6)) (\<lambda>SR1.
         write_DR output s DR (NOT SR1)))"

text \<open>Lines 121 to 132.\<close>

definition case_LD :: "WINDOW \<Rightarrow> LC3 \<Rightarrow> fault + WINDOW \<times> LC3" where
  "case_LD output s =
     (let DR = reg_field (IR s) 9;
          PCoffset = PCoffset9 (IR s)
      in and_then (mem_load s (uint (PC s) + sint PCoffset)) (\<lambda>v.
         write_DR output s DR v))"

text \<open>Lines 133 to 153: \<open>ADD\<close> and \<open>AND\<close> share one body.\<close>

definition case_ADD_AND :: "nat \<Rightarrow> WINDOW \<Rightarrow> LC3 \<Rightarrow> fault + WINDOW \<times> LC3" where
  "case_ADD_AND opcode output s =
     (let DR = reg_field (IR s) 9
      in and_then (reg_load s (reg_field (IR s) 6)) (\<lambda>SR1.
         and_then
           (if IR s AND 0x0020 \<noteq> 0
            then Inr ((IR s AND 0x1f) OR (if IR s AND 0x10 \<noteq> 0 then 0xffe0 else 0))
            else reg_load s (uint (IR s AND 7))) (\<lambda>SR2.
         write_DR output s DR
           (if opcode = ADD then to_uint16 (uint SR1 + uint SR2) else SR1 AND SR2))))"

text \<open>Lines 154 to 166.\<close>

definition case_BR :: "WINDOW \<Rightarrow> LC3 \<Rightarrow> fault + WINDOW \<times> LC3" where
  "case_BR output s =
     (if (drop_bit 11 (IR s) AND 1 \<noteq> 0 \<and> CC s = CHR ''N'') \<or>
         (drop_bit 10 (IR s) AND 1 \<noteq> 0 \<and> CC s = CHR ''Z'') \<or>
         (drop_bit 9 (IR s) AND 1 \<noteq> 0 \<and> CC s = CHR ''P'')
      then let PCoffset = PCoffset9 (IR s)
           in Inr (output, s\<lparr>PC := to_uint16 (uint (PC s) + sint PCoffset)\<rparr>)
      else Inr (output, s))"

text \<open>Lines 167 to 173.\<close>

definition case_LDR :: "WINDOW \<Rightarrow> LC3 \<Rightarrow> fault + WINDOW \<times> LC3" where
  "case_LDR output s =
     (let DR = reg_field (IR s) 9
      in and_then (reg_load s (reg_field (IR s) 6)) (\<lambda>SR1.
         let PCoffset = PCoffset6 (IR s)
         in and_then (mem_load s (uint SR1 + sint PCoffset)) (\<lambda>v.
            write_DR output s DR v)))"

text \<open>Lines 174 to 178.\<close>

definition case_ST :: "WINDOW \<Rightarrow> LC3 \<Rightarrow> fault + WINDOW \<times> LC3" where
  "case_ST output s =
     and_then (reg_load s (reg_field (IR s) 9)) (\<lambda>SR1.
     let PCoffset = PCoffset9 (IR s)
     in and_then (mem_store s (uint (PC s) + sint PCoffset) SR1) (\<lambda>s1.
        Inr (output, s1)))"

text \<open>Lines 179 to 184.\<close>

definition case_STR :: "WINDOW \<Rightarrow> LC3 \<Rightarrow> fault + WINDOW \<times> LC3" where
  "case_STR output s =
     and_then (reg_load s (reg_field (IR s) 9)) (\<lambda>SR1.
     and_then (reg_load s (reg_field (IR s) 6)) (\<lambda>SR2.
     let PCoffset = PCoffset6 (IR s)
     in and_then (mem_store s (uint SR2 + sint PCoffset) SR1) (\<lambda>s1.
        Inr (output, s1))))"

text \<open>
  Lines 185 to 194. The halt test on line 191 reads the pointer cell again, after the
  store of lines 188 to 190.
\<close>

definition case_STI :: "WINDOW \<Rightarrow> LC3 \<Rightarrow> fault + WINDOW \<times> LC3" where
  "case_STI output s =
     and_then (reg_load s (reg_field (IR s) 9)) (\<lambda>SR1.
     let PCoffset = PCoffset9 (IR s)
     in and_then (mem_load s (uint (PC s) + sint PCoffset)) (\<lambda>a.
        and_then (mem_store s (uint a) SR1) (\<lambda>s1.
        and_then (mem_load s1 (uint (PC s1) + sint PCoffset)) (\<lambda>a1.
        if a1 = MCR then Inr (output, s1\<lparr>isHalted := True\<rparr>)
        else Inr (output, s1)))))"

text \<open>Lines 195 to 198.\<close>

definition case_JMP :: "WINDOW \<Rightarrow> LC3 \<Rightarrow> fault + WINDOW \<times> LC3" where
  "case_JMP output s =
     and_then (reg_load s (reg_field (IR s) 6)) (\<lambda>SR1.
     Inr (output, s\<lparr>PC := SR1\<rparr>))"

text \<open>Lines 199 to 208.\<close>

definition case_JSR :: "WINDOW \<Rightarrow> LC3 \<Rightarrow> fault + WINDOW \<times> LC3" where
  "case_JSR output s =
     and_then (reg_store s 7 (PC s)) (\<lambda>s1.
     if IR s1 AND 0x800 = 0x800
     then let PCoffset = PCoffset11 (IR s1)
          in Inr (output, s1\<lparr>PC := to_uint16 (uint (PC s1) + sint PCoffset)\<rparr>)
     else and_then (reg_load s1 (reg_field (IR s1) 6)) (\<lambda>SR1.
          Inr (output, s1\<lparr>PC := SR1\<rparr>)))"

text \<open>Lines 72 to 211: the opcode and the \<open>switch\<close>, its cases in the source's order.\<close>

definition dispatch :: "WINDOW \<Rightarrow> LC3 \<Rightarrow> fault + WINDOW \<times> LC3" where
  "dispatch output s =
     (let opcode = opcode_of (IR s)
      in if opcode = TRAP then case_TRAP output s
         else if opcode = LEA then case_LEA output s
         else if opcode = LDI then case_LDI output s
         else if opcode = NOT_op then case_NOT output s
         else if opcode = LD then case_LD output s
         else if opcode = ADD \<or> opcode = AND_op then case_ADD_AND opcode output s
         else if opcode = BR then case_BR output s
         else if opcode = LDR then case_LDR output s
         else if opcode = ST then case_ST output s
         else if opcode = STR_op then case_STR output s
         else if opcode = STI then case_STI output s
         else if opcode = JMP then case_JMP output s
         else if opcode = JSR then case_JSR output s
         else Inr (output, s))"

text \<open>Lines 213 to 219: the display and the two status registers.\<close>

definition devices :: "WINDOW \<Rightarrow> LC3 \<Rightarrow> fault + WINDOW \<times> LC3" where
  "devices output s =
     and_then (mem_load s (uint DDR)) (\<lambda>d.
     and_then
       (if d \<noteq> 0
        then and_then (mem_load s 0xFE06) (\<lambda>ch.
             and_then (mem_store s (uint DDR) 0) (\<lambda>s1.
             Inr (wechochar output (ch AND 0xff), s1)))
        else Inr (output, s)) (\<lambda>(out1, s1).
     and_then (mem_store s1 (uint KBSR) 0x8000) (\<lambda>s2.
     and_then (mem_store s2 (uint DSR) 0x8000) (\<lambda>s3.
     Inr (out1, s3)))))"

text \<open>The instruction proper: fetch and dispatch, before the devices are served.\<close>

definition instruction :: "WINDOW \<Rightarrow> LC3 \<Rightarrow> fault + WINDOW \<times> LC3" where
  "instruction output simulator =
     and_then (fetch simulator) (\<lambda>s. dispatch output s)"

definition execute_next :: "WINDOW \<Rightarrow> LC3 \<Rightarrow> fault + WINDOW \<times> LC3" where
  "execute_next output simulator =
     and_then (instruction output simulator) (\<lambda>(out1, s1). devices out1 s1)"

subsection \<open>Example machines\<close>

text \<open>
  A console with nothing typed, a machine with cleared memory and registers at the usual
  start address, and the two ways the examples prepare it. The \<open>_after\<close> functions
  read a field of the post-state, when the step has one.
\<close>

definition quiet :: WINDOW where
  "quiet = \<lparr>delay = 0, pending = [], calls = []\<rparr>"

definition reset :: LC3 where
  "reset = \<lparr>memory = (\<lambda>a. 0), registers = (\<lambda>r. 0), PC = 0x3000, IR = 0,
             CC = CHR ''Z'', isHalted = False\<rparr>"

definition poke :: "nat \<Rightarrow> uint16 \<Rightarrow> LC3 \<Rightarrow> LC3" where
  "poke a v s = s\<lparr>memory := (memory s)(a := v)\<rparr>"

definition set_reg :: "nat \<Rightarrow> uint16 \<Rightarrow> LC3 \<Rightarrow> LC3" where
  "set_reg r v s = s\<lparr>registers := (registers s)(r := v)\<rparr>"

definition register_after :: "nat \<Rightarrow> fault + WINDOW \<times> LC3 \<Rightarrow> uint16 option" where
  "register_after r res = (case res of Inl e \<Rightarrow> None | Inr (w, s) \<Rightarrow> Some (registers s r))"

definition memory_after :: "nat \<Rightarrow> fault + WINDOW \<times> LC3 \<Rightarrow> uint16 option" where
  "memory_after a res = (case res of Inl e \<Rightarrow> None | Inr (w, s) \<Rightarrow> Some (memory s a))"

definition halted_after :: "fault + WINDOW \<times> LC3 \<Rightarrow> bool option" where
  "halted_after res = (case res of Inl e \<Rightarrow> None | Inr (w, s) \<Rightarrow> Some (isHalted s))"

definition cc_after :: "fault + WINDOW \<times> LC3 \<Rightarrow> char option" where
  "cc_after res = (case res of Inl e \<Rightarrow> None | Inr (w, s) \<Rightarrow> Some (CC s))"

section \<open>Basic facts\<close>

lemmas opcode_defs =
  BR_def ADD_def LD_def ST_def JSR_def AND_op_def LDR_def STR_op_def NOT_op_def LDI_def
  STI_def JMP_def LEA_def TRAP_def

lemmas model_defs =
  execute_next_def instruction_def fetch_def dispatch_def devices_def
  case_TRAP_def case_LEA_def case_LDI_def case_NOT_def case_LD_def case_ADD_AND_def
  case_BR_def case_LDR_def case_ST_def case_STR_def case_STI_def case_JMP_def case_JSR_def
  write_DR_def flag_cc_def setcc_def to_uint16_def opcode_of_def reg_field_def
  PCoffset9_def PCoffset6_def PCoffset11_def shifted_field_def
  mem_load_def mem_store_def reg_load_def reg_store_def and_then_def
  wtimeout_def wgetch_def wechochar_def ERR_def
  KBSR_def KBDR_def DSR_def DDR_def MCR_def opcode_defs Let_def

lemmas example_defs =
  quiet_def reset_def poke_def set_reg_def register_after_def memory_after_def
  halted_after_def cc_after_def

lemma and_then_Inl: "and_then (Inl e) f = Inl e"
  by (simp add: and_then_def)

lemma and_then_Inr: "and_then (Inr x) f = f x"
  by (simp add: and_then_def)

subsection \<open>Indices that are always inside their array\<close>

lemma uint_and7_bounds: "0 \<le> uint (w AND 7) \<and> uint (w AND (7 :: uint16)) < 8"
proof -
  have "w AND 7 \<le> 7" by (rule word_and_le1)
  then have "uint (w AND 7) \<le> uint (7 :: uint16)" by (simp only: word_le_def)
  then show ?thesis by simp
qed

lemma reg_field_bounds: "0 \<le> reg_field ir k \<and> reg_field ir k < 8"
  unfolding reg_field_def by (rule uint_and7_bounds)

lemma reg_load_field: "reg_load s (reg_field ir k) = Inr (registers s (nat (reg_field ir k)))"
  using reg_field_bounds [of ir k] by (simp add: reg_load_def)

lemma reg_store_field:
  "reg_store s (reg_field ir k) v =
     Inr (s\<lparr>registers := (registers s)(nat (reg_field ir k) := v)\<rparr>)"
  using reg_field_bounds [of ir k] by (simp add: reg_store_def)

lemma reg_load_and7:
  "reg_load s (uint (w AND (7 :: uint16))) = Inr (registers s (unat (w AND 7)))"
  using uint_and7_bounds [of w] by (simp add: reg_load_def)

lemma reg_store_7: "reg_store s 7 v = Inr (s\<lparr>registers := (registers s)(7 := v)\<rparr>)"
  by (simp add: reg_store_def)

lemma uint16_bounds: "0 \<le> uint (w :: uint16) \<and> uint w < 65536"
  using uint_bounded [of w] by simp

lemma mem_load_uint: "mem_load s (uint (w :: uint16)) = Inr (memory s (unat w))"
  using uint16_bounds [of w] by (simp add: mem_load_def)

lemma mem_store_uint:
  "mem_store s (uint (w :: uint16)) v = Inr (s\<lparr>memory := (memory s)(unat w := v)\<rparr>)"
  using uint16_bounds [of w] by (simp add: mem_store_def)

lemma mem_load_in_range:
  "0 \<le> i \<Longrightarrow> i < 65536 \<Longrightarrow> mem_load s i = Inr (memory s (nat i))"
  by (simp add: mem_load_def)

lemma to_uint16_sum:
  "to_uint16 (uint (a :: uint16) + sint (b :: uint16)) = a + b"
  "to_uint16 (uint a + uint (c :: uint16)) = a + c"
  by (simp_all add: to_uint16_def)

lemma flag_cc_field:
  "flag_cc s (reg_field ir k) = Inr (s\<lparr>CC := setcc (registers s (nat (reg_field ir k)))\<rparr>)"
  by (simp add: flag_cc_def reg_load_field and_then_Inr)

lemma write_DR_field:
  "write_DR output s (reg_field ir k) v =
     Inr (output, s\<lparr>registers := (registers s)(nat (reg_field ir k) := v), CC := setcc v\<rparr>)"
  by (simp add: write_DR_def reg_store_field flag_cc_field and_then_Inr)

lemmas access_simps =
  and_then_Inl and_then_Inr reg_load_field reg_store_field reg_load_and7 reg_store_7
  mem_load_uint mem_store_uint to_uint16_sum flag_cc_field write_DR_field Let_def

subsection \<open>Bit fields\<close>

lemma masks:
  "(w :: uint16) AND 0x1ff = take_bit 9 w"
  "(w :: uint16) AND 0x7ff = take_bit 11 w"
  "(w :: uint16) AND 0x3f = take_bit 6 w"
  "(w :: uint16) AND 0x1f = take_bit 5 w"
  by (simp_all add: take_bit_eq_mask mask_eq_exp_minus_1)

text \<open>The 9-bit and the 11-bit offsets are sign-extended.\<close>

lemma PCoffset9_sext: "PCoffset9 ir = signed_take_bit 8 ir"
  unfolding PCoffset9_def shifted_field_def masks
  apply (rule bit_word_eqI)
  apply (auto simp add: bit_simps bit_signed_drop_bit_iff min_def)
  subgoal for n by (cases "n = 8") simp_all
  subgoal for n by (cases "n = 8") simp_all
  done

text \<open>
  As a number: the low 9 bits, less 512 when bit 8 is set.
\<close>

lemma sint_sext9: "sint (signed_take_bit 8 (ir :: uint16)) = signed_take_bit 8 (uint ir)"
  by (rule bit_eqI) (auto simp add: bit_simps min_def)

lemma PCoffset9_sint:
  "sint (PCoffset9 ir) = uint (take_bit 9 ir) - (if bit ir 8 then 512 else 0)"
proof -
  have "sint (PCoffset9 ir) = signed_take_bit 8 (uint ir)"
    by (simp only: PCoffset9_sext sint_sext9)
  also have "\<dots> = take_bit 9 (uint ir) - 2 ^ 9 * of_bool (bit (uint ir) 8)"
    using signed_take_bit_eq_take_bit_minus [of 8 "uint ir"] by simp
  also have "\<dots> = uint (take_bit 9 ir) - (if bit ir 8 then 512 else 0)"
    by (simp add: unsigned_take_bit_eq bit_uint_iff)
  finally show ?thesis .
qed

lemma PCoffset11_sext: "PCoffset11 ir = signed_take_bit 10 ir"
  unfolding PCoffset11_def shifted_field_def masks
  apply (rule bit_word_eqI)
  apply (auto simp add: bit_simps bit_signed_drop_bit_iff min_def)
  subgoal for n by (cases "n = 10") simp_all
  subgoal for n by (cases "n = 10") simp_all
  done

text \<open>
  The 6-bit offset of \<open>LDR\<close> and \<open>STR\<close> is moved up by 9 bits only, so its top bit
  lands on bit 14 and never on the sign bit: the offset is the field itself, 0 to 63.
\<close>

lemma PCoffset6_zext: "PCoffset6 ir = take_bit 6 ir"
  unfolding PCoffset6_def shifted_field_def masks
  apply (rule bit_word_eqI)
  apply (auto simp add: bit_simps bit_signed_drop_bit_iff min_def)
  done

lemma single_bit_test: "n < 16 \<Longrightarrow> ((ir :: uint16) AND 2 ^ n \<noteq> 0) = bit ir n"
  by (simp add: and_exp_eq_0_iff_not_bit)

lemma bit5_test: "(ir AND 0x0020 \<noteq> 0) = bit (ir :: uint16) 5"
  using single_bit_test [of 5 ir] by simp

lemma bit4_test: "(ir AND 0x10 \<noteq> 0) = bit (ir :: uint16) 4"
  using single_bit_test [of 4 ir] by simp

lemma bit_test: "(drop_bit n w AND 1 \<noteq> 0) = bit (w :: uint16) n"
  by (simp add: and_one_eq bit_iff_odd_drop_bit mod_2_eq_odd)

lemma ffe0: "(0xffe0 :: uint16) = NOT (mask 5)"
  by (simp add: mask_eq_exp_minus_1)

lemma imm5_sext:
  "(ir AND 0x1f) OR (if ir AND 0x10 \<noteq> 0 then 0xffe0 else 0) = signed_take_bit 4 (ir :: uint16)"
  unfolding masks bit4_test ffe0
  apply (rule bit_word_eqI)
  apply (auto simp add: bit_simps min_def)
  subgoal for n by (cases "n = 4") simp_all
  subgoal for n by (cases "n = 4") simp_all
  done

section \<open>The cases of the \<open>switch\<close>\<close>

subsection \<open>Cases that always complete\<close>

lemma case_TRAP_eq:
  "case_TRAP output s =
     Inr (output, s\<lparr>registers := (registers s)(7 := PC s),
                     PC := memory s (unat (IR s AND 0xff))\<rparr>)"
  by (simp add: case_TRAP_def access_simps)

lemma case_LEA_eq:
  "case_LEA output s =
     Inr (output,
          s\<lparr>registers := (registers s)(nat (reg_field (IR s) 9) := PC s + PCoffset9 (IR s)),
            CC := setcc (PC s + PCoffset9 (IR s))\<rparr>)"
  by (simp add: case_LEA_def access_simps)

lemma case_NOT_eq:
  "case_NOT output s =
     Inr (output,
          s\<lparr>registers := (registers s)(nat (reg_field (IR s) 9) :=
                NOT (registers s (nat (reg_field (IR s) 6)))),
            CC := setcc (NOT (registers s (nat (reg_field (IR s) 6))))\<rparr>)"
  by (simp add: case_NOT_def access_simps)

lemma case_ADD_AND_eq:
  "case_ADD_AND opcode output s =
     Inr (output,
          s\<lparr>registers := (registers s)(nat (reg_field (IR s) 9) :=
                (if opcode = ADD
                 then registers s (nat (reg_field (IR s) 6)) +
                      (if bit (IR s) 5 then signed_take_bit 4 (IR s)
                       else registers s (unat (IR s AND 7)))
                 else registers s (nat (reg_field (IR s) 6)) AND
                      (if bit (IR s) 5 then signed_take_bit 4 (IR s)
                       else registers s (unat (IR s AND 7))))),
            CC := setcc
                (if opcode = ADD
                 then registers s (nat (reg_field (IR s) 6)) +
                      (if bit (IR s) 5 then signed_take_bit 4 (IR s)
                       else registers s (unat (IR s AND 7)))
                 else registers s (nat (reg_field (IR s) 6)) AND
                      (if bit (IR s) 5 then signed_take_bit 4 (IR s)
                       else registers s (unat (IR s AND 7))))\<rparr>)"
proof (cases "bit (IR s) 5")
  case True
  then have "IR s AND 0x0020 \<noteq> 0" by (simp only: bit5_test)
  with True show ?thesis
    by (simp add: case_ADD_AND_def access_simps imm5_sext)
next
  case False
  then have "IR s AND 0x0020 = 0" using bit5_test [of "IR s"] by simp
  with False show ?thesis
    by (simp add: case_ADD_AND_def access_simps)
qed

lemma case_BR_eq:
  "case_BR output s =
     Inr (output,
          if (bit (IR s) 11 \<and> CC s = CHR ''N'') \<or> (bit (IR s) 10 \<and> CC s = CHR ''Z'') \<or>
             (bit (IR s) 9 \<and> CC s = CHR ''P'')
          then s\<lparr>PC := PC s + PCoffset9 (IR s)\<rparr> else s)"
  by (simp add: case_BR_def access_simps bit_test)

lemma case_JMP_eq:
  "case_JMP output s = Inr (output, s\<lparr>PC := registers s (nat (reg_field (IR s) 6))\<rparr>)"
  by (simp add: case_JMP_def access_simps)

lemma case_JSR_eq:
  "case_JSR output s =
     Inr (output,
          s\<lparr>registers := (registers s)(7 := PC s),
            PC := (if IR s AND 0x800 = 0x800 then PC s + PCoffset11 (IR s)
                   else ((registers s)(7 := PC s)) (nat (reg_field (IR s) 6)))\<rparr>)"
  by (simp add: case_JSR_def access_simps)

lemmas total_cases =
  case_TRAP_eq case_LEA_eq case_NOT_eq case_ADD_AND_eq case_BR_eq case_JMP_eq case_JSR_eq

subsection \<open>Cases that index memory with an unreduced sum\<close>

lemma case_LD_Inr:
  "case_LD output s = Inr (out', s') \<Longrightarrow>
     out' = output \<and> IR s' = IR s \<and> isHalted s' = isHalted s \<and>
     CC s' = setcc (registers s' (nat (reg_field (IR s) 9)))"
  by (auto simp add: case_LD_def access_simps mem_load_def split: if_splits)

lemma case_LDR_Inr:
  "case_LDR output s = Inr (out', s') \<Longrightarrow>
     out' = output \<and> IR s' = IR s \<and> isHalted s' = isHalted s \<and>
     CC s' = setcc (registers s' (nat (reg_field (IR s) 9)))"
  by (auto simp add: case_LDR_def access_simps mem_load_def split: if_splits)

lemma case_LDI_Inr:
  "case_LDI output s = Inr (out', s') \<Longrightarrow>
     IR s' = IR s \<and> isHalted s' = isHalted s \<and>
     CC s' = setcc (registers s' (nat (reg_field (IR s) 9)))"
  by (auto simp add: case_LDI_def access_simps mem_load_def wgetch_def
      split: if_splits list.splits)

lemma case_ST_Inr:
  "case_ST output s = Inr (out', s') \<Longrightarrow>
     out' = output \<and> IR s' = IR s \<and> isHalted s' = isHalted s \<and> CC s' = CC s \<and>
     registers s' = registers s \<and> PC s' = PC s"
  by (auto simp add: case_ST_def access_simps mem_store_def split: if_splits)

lemma case_STR_Inr:
  "case_STR output s = Inr (out', s') \<Longrightarrow>
     out' = output \<and> IR s' = IR s \<and> isHalted s' = isHalted s \<and> CC s' = CC s \<and>
     registers s' = registers s \<and> PC s' = PC s"
  by (auto simp add: case_STR_def access_simps mem_store_def split: if_splits)

lemma case_STI_Inr:
  "case_STI output s = Inr (out', s') \<Longrightarrow>
     out' = output \<and> registers s' = registers s \<and> CC s' = CC s \<and> IR s' = IR s \<and>
     PC s' = PC s \<and> (isHalted s \<longrightarrow> isHalted s')"
  by (auto simp add: case_STI_def access_simps mem_load_def split: if_splits)

text \<open>
  \<open>STI\<close> with the pointer cell inside the array: the store goes to the address the cell
  holds, and the halt test looks at the cell as the store left it.
\<close>

lemma case_STI_eq:
  assumes "0 \<le> uint (PC s) + sint (PCoffset9 (IR s))"
    and "uint (PC s) + sint (PCoffset9 (IR s)) < 65536"
  shows "case_STI output s =
     Inr (output,
          s\<lparr>memory := (memory s)
                 (unat (memory s (nat (uint (PC s) + sint (PCoffset9 (IR s))))) :=
                    registers s (nat (reg_field (IR s) 9))),
            isHalted :=
              (((memory s)
                 (unat (memory s (nat (uint (PC s) + sint (PCoffset9 (IR s))))) :=
                    registers s (nat (reg_field (IR s) 9))))
                 (nat (uint (PC s) + sint (PCoffset9 (IR s)))) = MCR \<or> isHalted s)\<rparr>)"
  using assms by (simp add: case_STI_def access_simps mem_load_def)

text \<open>\<open>LDI\<close> with the pointer cell inside the array.\<close>

lemma case_LDI_keyboard:
  assumes "0 \<le> uint (PC s) + sint (PCoffset9 (IR s))"
    and "uint (PC s) + sint (PCoffset9 (IR s)) < 65536"
    and "memory s (nat (uint (PC s) + sint (PCoffset9 (IR s)))) = KBDR"
    and "pending output = c # cs"
  shows "case_LDI output s =
     Inr (output\<lparr>delay := 0, pending := cs,
                  calls := calls output @ [Wtimeout (- 1), Wgetch c, Wtimeout 0]\<rparr>,
          s\<lparr>registers := (registers s)(nat (reg_field (IR s) 9) := to_uint16 c),
            CC := setcc (to_uint16 c)\<rparr>)"
  using assms
  by (simp add: case_LDI_def access_simps mem_load_def wgetch_def wtimeout_def)

lemma case_LDI_blocked:
  assumes "0 \<le> uint (PC s) + sint (PCoffset9 (IR s))"
    and "uint (PC s) + sint (PCoffset9 (IR s)) < 65536"
    and "memory s (nat (uint (PC s) + sint (PCoffset9 (IR s)))) = KBDR"
    and "pending output = []"
  shows "case_LDI output s = Inl BlockedForever"
  using assms
  by (simp add: case_LDI_def access_simps mem_load_def wgetch_def wtimeout_def)

lemma case_LDI_memory:
  assumes "0 \<le> uint (PC s) + sint (PCoffset9 (IR s))"
    and "uint (PC s) + sint (PCoffset9 (IR s)) < 65536"
    and "memory s (nat (uint (PC s) + sint (PCoffset9 (IR s)))) \<noteq> KBDR"
  shows "case_LDI output s =
     Inr (output,
          s\<lparr>registers := (registers s)(nat (reg_field (IR s) 9) :=
                memory s (unat (memory s (nat (uint (PC s) + sint (PCoffset9 (IR s))))))),
            CC := setcc
                (memory s (unat (memory s (nat (uint (PC s) + sint (PCoffset9 (IR s)))))))\<rparr>)"
  using assms
  by (simp add: case_LDI_def access_simps mem_load_in_range)

lemma case_LDI_out_of_range:
  assumes "\<not> (0 \<le> uint (PC s) + sint (PCoffset9 (IR s)) \<and>
              uint (PC s) + sint (PCoffset9 (IR s)) < 65536)"
  shows "case_LDI output s = Inl (MemoryOutOfBounds (uint (PC s) + sint (PCoffset9 (IR s))))"
  using assms
  by (auto simp add: case_LDI_def access_simps mem_load_def)

subsection \<open>No case faults on a register index\<close>

lemma case_LD_no_reg_fault: "case_LD output s \<noteq> Inl (RegisterOutOfBounds i)"
  by (simp add: case_LD_def access_simps mem_load_def)

lemma case_LDR_no_reg_fault: "case_LDR output s \<noteq> Inl (RegisterOutOfBounds i)"
  by (simp add: case_LDR_def access_simps mem_load_def)

lemma case_ST_no_reg_fault: "case_ST output s \<noteq> Inl (RegisterOutOfBounds i)"
  by (simp add: case_ST_def access_simps mem_store_def)

lemma case_STR_no_reg_fault: "case_STR output s \<noteq> Inl (RegisterOutOfBounds i)"
  by (simp add: case_STR_def access_simps mem_store_def)

lemma case_STI_no_reg_fault: "case_STI output s \<noteq> Inl (RegisterOutOfBounds i)"
  by (simp add: case_STI_def access_simps mem_load_def)

lemma case_LDI_no_reg_fault: "case_LDI output s \<noteq> Inl (RegisterOutOfBounds i)"
  by (simp add: case_LDI_def access_simps mem_load_def wgetch_def split: list.splits)

lemma dispatch_no_reg_fault: "dispatch output s \<noteq> Inl (RegisterOutOfBounds i)"
  by (simp add: dispatch_def Let_def total_cases case_LD_no_reg_fault case_LDR_no_reg_fault
      case_ST_no_reg_fault case_STR_no_reg_fault case_STI_no_reg_fault case_LDI_no_reg_fault)

section \<open>The whole step\<close>

lemma fetch_eq: "fetch s = Inr (s\<lparr>IR := memory s (unat (PC s)), PC := PC s + 1\<rparr>)"
  by (simp add: fetch_def mem_load_uint and_then_Inr)

lemma devices_eq:
  "devices output s =
     Inr (if memory s 0xFE06 \<noteq> 0 then wechochar output (memory s 0xFE06 AND 0xff) else output,
          s\<lparr>memory := (memory s)(0xFE06 := 0, 0xFE00 := 0x8000, 0xFE04 := 0x8000)\<rparr>)"
proof (cases "memory s 0xFE06 = 0")
  case True
  then have "(memory s)(0xFE06 := 0) = memory s"
    by (rule fun_upd_idem)
  with True show ?thesis
    by (simp add: devices_def and_then_Inr mem_load_def mem_store_def DDR_def KBSR_def DSR_def)
next
  case False
  then show ?thesis
    by (simp add: devices_def and_then_Inr mem_load_def mem_store_def DDR_def KBSR_def DSR_def)
qed

lemma step_eq:
  "execute_next output s =
     and_then (dispatch output (s\<lparr>IR := memory s (unat (PC s)), PC := PC s + 1\<rparr>))
       (\<lambda>(out1, s1). devices out1 s1)"
  by (simp add: execute_next_def instruction_def fetch_eq and_then_Inr)

lemma step_fault:
  "(execute_next output s = Inl e) =
     (dispatch output (s\<lparr>IR := memory s (unat (PC s)), PC := PC s + 1\<rparr>) = Inl e)"
  by (auto simp add: step_eq and_then_def devices_eq split: sum.splits)

lemma step_Inr:
  "(execute_next output s = Inr (out', s')) =
     (\<exists>out1 s1.
        dispatch output (s\<lparr>IR := memory s (unat (PC s)), PC := PC s + 1\<rparr>) = Inr (out1, s1) \<and>
        out' = (if memory s1 0xFE06 \<noteq> 0 then wechochar out1 (memory s1 0xFE06 AND 0xff)
                else out1) \<and>
        s' = s1\<lparr>memory := (memory s1)(0xFE06 := 0, 0xFE00 := 0x8000, 0xFE04 := 0x8000)\<rparr>)"
  by (auto simp add: step_eq and_then_def devices_eq split: sum.splits)

lemma step_total:
  assumes "dispatch output (s\<lparr>IR := memory s (unat (PC s)), PC := PC s + 1\<rparr>) = Inr (out1, s1)"
  shows "execute_next output s =
     Inr (if memory s1 0xFE06 \<noteq> 0 then wechochar out1 (memory s1 0xFE06 AND 0xff) else out1,
          s1\<lparr>memory := (memory s1)(0xFE06 := 0, 0xFE00 := 0x8000, 0xFE04 := 0x8000)\<rparr>)"
  using assms by (simp add: step_eq and_then_Inr devices_eq)

lemma dispatch_CC:
  assumes "dispatch output s = Inr (out', s')"
  shows "IR s' = IR s \<and>
     CC s' = (if opcode_of (IR s) \<in> {ADD, AND_op, NOT_op, LD, LDI, LDR, LEA}
              then setcc (registers s' (nat (reg_field (IR s) 9))) else CC s)"
  using assms
  by (auto simp add: dispatch_def Let_def opcode_defs total_cases
      split: if_splits
      dest!: case_LD_Inr case_LDR_Inr case_LDI_Inr case_ST_Inr case_STR_Inr case_STI_Inr)

lemma dispatch_halt:
  assumes "dispatch output s = Inr (out', s')"
  shows "(isHalted s \<longrightarrow> isHalted s') \<and>
     (opcode_of (IR s) \<noteq> STI \<longrightarrow> isHalted s' = isHalted s)"
  using assms
  by (auto simp add: dispatch_def Let_def opcode_defs total_cases
      split: if_splits
      dest!: case_LD_Inr case_LDR_Inr case_LDI_Inr case_ST_Inr case_STR_Inr case_STI_Inr)

text \<open>
  A step that completes never clears \<open>isHalted\<close>, and only an \<open>STI\<close> can set it.
\<close>

lemma halt_flag_never_reset:
  assumes "execute_next output s = Inr (out', s')"
  shows "(isHalted s \<longrightarrow> isHalted s') \<and>
     (opcode_of (memory s (unat (PC s))) \<noteq> STI \<longrightarrow> isHalted s' = isHalted s)"
proof -
  from assms obtain out1 s1 where
    d: "dispatch output (s\<lparr>IR := memory s (unat (PC s)), PC := PC s + 1\<rparr>) = Inr (out1, s1)"
    and s': "s' = s1\<lparr>memory := (memory s1)(0xFE06 := 0, 0xFE00 := 0x8000, 0xFE04 := 0x8000)\<rparr>"
    unfolding step_Inr by blast
  from dispatch_halt [OF d] s' show ?thesis
    by simp
qed

subsection \<open>Where a step can fault\<close>

lemma case_LD_Inl:
  "case_LD output s = Inl e \<Longrightarrow>
     e = MemoryOutOfBounds (uint (PC s) + sint (PCoffset9 (IR s))) \<and>
     \<not> (0 \<le> uint (PC s) + sint (PCoffset9 (IR s)) \<and>
        uint (PC s) + sint (PCoffset9 (IR s)) < 65536)"
  by (auto simp add: case_LD_def access_simps mem_load_def split: if_splits)

lemma case_ST_Inl:
  "case_ST output s = Inl e \<Longrightarrow>
     e = MemoryOutOfBounds (uint (PC s) + sint (PCoffset9 (IR s))) \<and>
     \<not> (0 \<le> uint (PC s) + sint (PCoffset9 (IR s)) \<and>
        uint (PC s) + sint (PCoffset9 (IR s)) < 65536)"
  by (auto simp add: case_ST_def access_simps mem_store_def split: if_splits)

lemma case_STI_Inl:
  "case_STI output s = Inl e \<Longrightarrow>
     e = MemoryOutOfBounds (uint (PC s) + sint (PCoffset9 (IR s))) \<and>
     \<not> (0 \<le> uint (PC s) + sint (PCoffset9 (IR s)) \<and>
        uint (PC s) + sint (PCoffset9 (IR s)) < 65536)"
  by (auto simp add: case_STI_def access_simps mem_load_def split: if_splits)

lemma uint16_less: "uint (w :: uint16) < 65536"
  using uint16_bounds [of w] by simp

lemma case_LDI_Inl:
  "case_LDI output s = Inl e \<Longrightarrow>
     e = BlockedForever \<or>
     e = MemoryOutOfBounds (uint (PC s) + sint (PCoffset9 (IR s))) \<and>
     \<not> (0 \<le> uint (PC s) + sint (PCoffset9 (IR s)) \<and>
        uint (PC s) + sint (PCoffset9 (IR s)) < 65536)"
  by (auto simp add: case_LDI_def access_simps mem_load_def wgetch_def uint16_less
      split: if_splits list.splits)

lemma PCoffset6_nonneg: "0 \<le> sint (PCoffset6 ir)"
  by (simp add: PCoffset6_zext sint_uint signed_take_bit_eq_if_positive bit_simps)

lemma case_LDR_Inl:
  "case_LDR output s = Inl e \<Longrightarrow>
     e = MemoryOutOfBounds
           (uint (registers s (nat (reg_field (IR s) 6))) + sint (PCoffset6 (IR s))) \<and>
     65536 \<le> uint (registers s (nat (reg_field (IR s) 6))) + sint (PCoffset6 (IR s))"
  using PCoffset6_nonneg [of "IR s"]
  by (auto simp add: case_LDR_def access_simps mem_load_def split: if_splits)

lemma case_STR_Inl:
  "case_STR output s = Inl e \<Longrightarrow>
     e = MemoryOutOfBounds
           (uint (registers s (nat (reg_field (IR s) 6))) + sint (PCoffset6 (IR s))) \<and>
     65536 \<le> uint (registers s (nat (reg_field (IR s) 6))) + sint (PCoffset6 (IR s))"
  using PCoffset6_nonneg [of "IR s"]
  by (auto simp add: case_STR_def access_simps mem_store_def split: if_splits)

text \<open>
  The only faults of a step: an unreduced first-level index outside memory, in the six
  cases that use one, and the keyboard read that never returns.
\<close>

lemma dispatch_Inl:
  assumes "dispatch output s = Inl e"
  shows "e = BlockedForever \<and> opcode_of (IR s) = LDI \<or>
     opcode_of (IR s) \<in> {LD, LDI, ST, STI} \<and>
       e = MemoryOutOfBounds (uint (PC s) + sint (PCoffset9 (IR s))) \<and>
       \<not> (0 \<le> uint (PC s) + sint (PCoffset9 (IR s)) \<and>
          uint (PC s) + sint (PCoffset9 (IR s)) < 65536) \<or>
     opcode_of (IR s) \<in> {LDR, STR_op} \<and>
       e = MemoryOutOfBounds
             (uint (registers s (nat (reg_field (IR s) 6))) + sint (PCoffset6 (IR s))) \<and>
       65536 \<le> uint (registers s (nat (reg_field (IR s) 6))) + sint (PCoffset6 (IR s))"
  using assms
  by (auto simp add: dispatch_def Let_def opcode_defs total_cases
      split: if_splits
      dest!: case_LD_Inl case_LDR_Inl case_LDI_Inl case_ST_Inl case_STR_Inl case_STI_Inl)

text \<open>
  A step faults only as \<open>dispatch\<close> does, on the state the fetch leaves.
\<close>

lemma step_Inl:
  assumes "execute_next output s = Inl e"
  shows "e = BlockedForever \<and> opcode_of (memory s (unat (PC s))) = LDI \<or>
     opcode_of (memory s (unat (PC s))) \<in> {LD, LDI, ST, STI} \<and>
       e = MemoryOutOfBounds (uint (PC s + 1) + sint (PCoffset9 (memory s (unat (PC s))))) \<and>
       \<not> (0 \<le> uint (PC s + 1) + sint (PCoffset9 (memory s (unat (PC s)))) \<and>
          uint (PC s + 1) + sint (PCoffset9 (memory s (unat (PC s)))) < 65536) \<or>
     opcode_of (memory s (unat (PC s))) \<in> {LDR, STR_op} \<and>
       e = MemoryOutOfBounds
             (uint (registers s (nat (reg_field (memory s (unat (PC s))) 6))) +
              sint (PCoffset6 (memory s (unat (PC s))))) \<and>
       65536 \<le> uint (registers s (nat (reg_field (memory s (unat (PC s))) 6))) +
               sint (PCoffset6 (memory s (unat (PC s))))"
proof -
  from assms have
    "dispatch output (s\<lparr>IR := memory s (unat (PC s)), PC := PC s + 1\<rparr>) = Inl e"
    by (simp only: step_fault)
  from dispatch_Inl [OF this] show ?thesis
    by simp
qed

text \<open>
  The whole step for \<open>LDI\<close> and \<open>STI\<close> when the pointer cell is inside memory.
\<close>

lemma LDI_step_keyboard:
  assumes op: "opcode_of (memory s (unat (PC s))) = LDI"
    and lo: "0 \<le> uint (PC s + 1) + sint (PCoffset9 (memory s (unat (PC s))))"
    and hi: "uint (PC s + 1) + sint (PCoffset9 (memory s (unat (PC s)))) < 65536"
    and kb: "memory s (nat (uint (PC s + 1) + sint (PCoffset9 (memory s (unat (PC s)))))) = KBDR"
    and inp: "pending output = c # cs"
  shows "\<exists>out' s'. execute_next output s = Inr (out', s') \<and>
     registers s' (nat (reg_field (memory s (unat (PC s))) 9)) = to_uint16 c \<and>
     CC s' = setcc (to_uint16 c) \<and>
     pending out' = cs \<and> delay out' = 0 \<and>
     calls out' = calls output @ [Wtimeout (- 1), Wgetch c, Wtimeout 0] @
       (if memory s 0xFE06 \<noteq> 0 then [Wechochar (memory s 0xFE06 AND 0xff)] else [])"
proof -
  let ?ir = "memory s (unat (PC s))"
  let ?f = "s\<lparr>IR := ?ir, PC := PC s + 1\<rparr>"
  from op have "dispatch output ?f = case_LDI output ?f"
    by (simp add: dispatch_def Let_def opcode_defs)
  also have "\<dots> =
     Inr (output\<lparr>delay := 0, pending := cs,
                  calls := calls output @ [Wtimeout (- 1), Wgetch c, Wtimeout 0]\<rparr>,
          ?f\<lparr>registers := (registers ?f)(nat (reg_field (IR ?f) 9) := to_uint16 c),
             CC := setcc (to_uint16 c)\<rparr>)"
    by (rule case_LDI_keyboard) (use lo hi kb inp in simp_all)
  finally have d: "dispatch output ?f =
     Inr (output\<lparr>delay := 0, pending := cs,
                  calls := calls output @ [Wtimeout (- 1), Wgetch c, Wtimeout 0]\<rparr>,
          ?f\<lparr>registers := (registers ?f)(nat (reg_field (IR ?f) 9) := to_uint16 c),
             CC := setcc (to_uint16 c)\<rparr>)" .
  from step_total [OF d] show ?thesis
    by (simp add: wechochar_def)
qed

lemma LDI_step_memory:
  assumes op: "opcode_of (memory s (unat (PC s))) = LDI"
    and lo: "0 \<le> uint (PC s + 1) + sint (PCoffset9 (memory s (unat (PC s))))"
    and hi: "uint (PC s + 1) + sint (PCoffset9 (memory s (unat (PC s)))) < 65536"
    and kb: "memory s (nat (uint (PC s + 1) + sint (PCoffset9 (memory s (unat (PC s)))))) \<noteq> KBDR"
  shows "\<exists>out' s'. execute_next output s = Inr (out', s') \<and>
     registers s' (nat (reg_field (memory s (unat (PC s))) 9)) =
       memory s (unat (memory s
         (nat (uint (PC s + 1) + sint (PCoffset9 (memory s (unat (PC s)))))))) \<and>
     CC s' = setcc (registers s' (nat (reg_field (memory s (unat (PC s))) 9))) \<and>
     pending out' = pending output \<and> delay out' = delay output"
proof -
  let ?ir = "memory s (unat (PC s))"
  let ?f = "s\<lparr>IR := ?ir, PC := PC s + 1\<rparr>"
  let ?v = "memory s (unat (memory s (nat (uint (PC s + 1) + sint (PCoffset9 ?ir)))))"
  from op have "dispatch output ?f = case_LDI output ?f"
    by (simp add: dispatch_def Let_def opcode_defs)
  also have "\<dots> =
     Inr (output, ?f\<lparr>registers := (registers ?f)(nat (reg_field (IR ?f) 9) := ?v),
                      CC := setcc ?v\<rparr>)"
    using case_LDI_memory [of ?f "output"] lo hi kb by simp
  finally have d: "dispatch output ?f =
     Inr (output, ?f\<lparr>registers := (registers ?f)(nat (reg_field (IR ?f) 9) := ?v),
                      CC := setcc ?v\<rparr>)" .
  from step_total [OF d] show ?thesis
    by (simp add: wechochar_def)
qed

lemma device_cells:
  assumes "a \<notin> {KBSR, DSR, DDR}"
  shows "unat a \<noteq> 0xFE00 \<and> unat a \<noteq> 0xFE04 \<and> unat a \<noteq> 0xFE06"
proof -
  have "unat a = 0xFE00 \<Longrightarrow> a = KBSR"
    unfolding KBSR_def by (simp only: word_unat_eq_iff) simp
  moreover have "unat a = 0xFE04 \<Longrightarrow> a = DSR"
    unfolding DSR_def by (simp only: word_unat_eq_iff) simp
  moreover have "unat a = 0xFE06 \<Longrightarrow> a = DDR"
    unfolding DDR_def by (simp only: word_unat_eq_iff) simp
  ultimately show ?thesis
    using assms by blast
qed

lemma STI_step:
  assumes op: "opcode_of (memory s (unat (PC s))) = STI"
    and lo: "0 \<le> uint (PC s + 1) + sint (PCoffset9 (memory s (unat (PC s))))"
    and hi: "uint (PC s + 1) + sint (PCoffset9 (memory s (unat (PC s)))) < 65536"
    and na: "unat (memory s (nat (uint (PC s + 1) + sint (PCoffset9 (memory s (unat (PC s))))))) \<noteq>
             nat (uint (PC s + 1) + sint (PCoffset9 (memory s (unat (PC s)))))"
  shows "\<exists>out' s'. execute_next output s = Inr (out', s') \<and>
     isHalted s' =
       (memory s (nat (uint (PC s + 1) + sint (PCoffset9 (memory s (unat (PC s)))))) = MCR \<or>
        isHalted s) \<and>
     (memory s (nat (uint (PC s + 1) + sint (PCoffset9 (memory s (unat (PC s)))))) \<notin>
        {KBSR, DSR, DDR} \<longrightarrow>
      memory s'
        (unat (memory s (nat (uint (PC s + 1) + sint (PCoffset9 (memory s (unat (PC s)))))))) =
        registers s (nat (reg_field (memory s (unat (PC s))) 9)))"
proof -
  let ?ir = "memory s (unat (PC s))"
  let ?f = "s\<lparr>IR := ?ir, PC := PC s + 1\<rparr>"
  let ?p = "nat (uint (PC s + 1) + sint (PCoffset9 ?ir))"
  from op have "dispatch output ?f = case_STI output ?f"
    by (simp add: dispatch_def Let_def opcode_defs)
  also have "\<dots> =
     Inr (output,
          ?f\<lparr>memory := (memory s)(unat (memory s ?p) := registers s (nat (reg_field ?ir 9))),
             isHalted := (((memory s)(unat (memory s ?p) := registers s (nat (reg_field ?ir 9))))
                 ?p = MCR \<or> isHalted s)\<rparr>)"
    using case_STI_eq [of ?f "output"] lo hi by simp
  finally have d: "dispatch output ?f =
     Inr (output,
          ?f\<lparr>memory := (memory s)(unat (memory s ?p) := registers s (nat (reg_field ?ir 9))),
             isHalted := (((memory s)(unat (memory s ?p) := registers s (nat (reg_field ?ir 9))))
                 ?p = MCR \<or> isHalted s)\<rparr>)" .
  from step_total [OF d] na device_cells [of "memory s ?p"] show ?thesis
    by auto
qed

text \<open>
  Read from a pre-state instead, \<open>PC = 0x3000\<close> is the address the \<open>LEA\<close> is fetched
  from; the instruction then adds to \<open>0x3001\<close>.
\<close>

lemma LEA_fetched_from_0x3000:
  "register_after 0 (execute_next quiet (poke 0x3000 0xE1FF reset)) = Some 0x3000"
  by (simp add: model_defs example_defs)

subsection \<open>The condition code\<close>

text \<open>
  Whenever a step returns, \<open>IR\<close> holds the instruction that was executed. If its opcode
  is one of \<open>ADD\<close>, \<open>AND\<close>, \<open>NOT\<close>, \<open>LD\<close>, \<open>LDI\<close>, \<open>LDR\<close>, \<open>LEA\<close>, then \<open>CC\<close> is \<open>Z\<close> when
  the destination register (bits 11 to 9) holds 0, \<open>N\<close> when it holds a value that is
  negative as a signed 16-bit number, and \<open>P\<close> otherwise. For every other opcode, the
  two without a case included, \<open>CC\<close> is what it was before the step.
\<close>

lemma condition_code_of_returning_step:
  assumes "execute_next output s = Inr (out', s')"
  shows "IR s' = memory s (unat (PC s)) \<and>
     CC s' =
       (if opcode_of (IR s') \<in> {ADD, AND_op, NOT_op, LD, LDI, LDR, LEA}
        then (if registers s' (nat (reg_field (IR s') 9)) = 0 then CHR ''Z''
              else if sint (registers s' (nat (reg_field (IR s') 9))) < 0 then CHR ''N''
              else CHR ''P'')
        else CC s)"
proof -
  from assms obtain out1 s1 where
    d: "dispatch output (s\<lparr>IR := memory s (unat (PC s)), PC := PC s + 1\<rparr>) = Inr (out1, s1)"
    and s': "s' = s1\<lparr>memory := (memory s1)(0xFE06 := 0, 0xFE00 := 0x8000, 0xFE04 := 0x8000)\<rparr>"
    unfolding step_Inr by blast
  from dispatch_CC [OF d] s' show ?thesis
    by (simp add: setcc_def)
qed

lemma condition_code_of_returning_step_example:
  "\<exists>out' s'. execute_next quiet (poke 0x3000 0x907F reset) = Inr (out', s') \<and>
     IR s' = 0x907F \<and> registers s' 0 = 0xFFFF \<and> CC s' = CHR ''N''"
proof -
  let ?s = "poke 0x3000 0x907F reset"
  obtain out' s' where h: "execute_next quiet ?s = Inr (out', s')"
    by (simp add: model_defs example_defs)
  from h have r: "registers s' 0 = 0xFFFF"
    by (auto simp add: model_defs example_defs)
  from condition_code_of_returning_step [OF h] have i: "IR s' = 0x907F"
    by (simp add: example_defs)
  with condition_code_of_returning_step [OF h] r have "CC s' = CHR ''N''"
    by (simp add: opcode_of_def opcode_defs reg_field_def)
  with h r i show ?thesis
    by blast
qed

text \<open>
  Every instruction but the three loads and the three stores returns from every
  pre-state, so for those the statement above is about every step.
\<close>

lemma step_returns:
  assumes "opcode_of (memory s (unat (PC s))) \<notin> {LD, LDI, LDR, ST, STR_op, STI}"
  shows "\<exists>out' s'. execute_next output s = Inr (out', s')"
proof (cases "execute_next output s")
  case (Inl e)
  from step_Inl [OF this] assms show ?thesis
    by auto
next
  case (Inr r)
  then show ?thesis
    by (cases r) simp
qed

text \<open>\<open>LD\<close> and \<open>LDR\<close> return when their index is inside memory.\<close>

lemma LD_step:
  assumes op: "opcode_of (memory s (unat (PC s))) = LD"
    and lo: "0 \<le> uint (PC s + 1) + sint (PCoffset9 (memory s (unat (PC s))))"
    and hi: "uint (PC s + 1) + sint (PCoffset9 (memory s (unat (PC s)))) < 65536"
  shows "\<exists>out' s'. execute_next output s = Inr (out', s') \<and>
     registers s' (nat (reg_field (memory s (unat (PC s))) 9)) =
       memory s (nat (uint (PC s + 1) + sint (PCoffset9 (memory s (unat (PC s)))))) \<and>
     CC s' = setcc (registers s' (nat (reg_field (memory s (unat (PC s))) 9)))"
proof -
  let ?ir = "memory s (unat (PC s))"
  let ?f = "s\<lparr>IR := ?ir, PC := PC s + 1\<rparr>"
  let ?v = "memory s (nat (uint (PC s + 1) + sint (PCoffset9 ?ir)))"
  from op have "dispatch output ?f = case_LD output ?f"
    by (simp add: dispatch_def Let_def opcode_defs)
  also have "\<dots> =
     Inr (output, ?f\<lparr>registers := (registers ?f)(nat (reg_field (IR ?f) 9) := ?v),
                      CC := setcc ?v\<rparr>)"
    using lo hi by (simp add: case_LD_def access_simps mem_load_in_range)
  finally have d: "dispatch output ?f =
     Inr (output, ?f\<lparr>registers := (registers ?f)(nat (reg_field (IR ?f) 9) := ?v),
                      CC := setcc ?v\<rparr>)" .
  from step_total [OF d] show ?thesis
    by simp
qed

lemma LDR_step:
  assumes op: "opcode_of (memory s (unat (PC s))) = LDR"
    and hi: "uint (registers s (nat (reg_field (memory s (unat (PC s))) 6))) +
             sint (PCoffset6 (memory s (unat (PC s)))) < 65536"
  shows "\<exists>out' s'. execute_next output s = Inr (out', s') \<and>
     registers s' (nat (reg_field (memory s (unat (PC s))) 9)) =
       memory s (nat (uint (registers s (nat (reg_field (memory s (unat (PC s))) 6))) +
                      sint (PCoffset6 (memory s (unat (PC s)))))) \<and>
     CC s' = setcc (registers s' (nat (reg_field (memory s (unat (PC s))) 9)))"
proof -
  let ?ir = "memory s (unat (PC s))"
  let ?f = "s\<lparr>IR := ?ir, PC := PC s + 1\<rparr>"
  let ?i = "uint (registers s (nat (reg_field ?ir 6))) + sint (PCoffset6 ?ir)"
  let ?v = "memory s (nat ?i)"
  have lo: "0 \<le> ?i"
    using PCoffset6_nonneg [of ?ir] by simp
  from op have "dispatch output ?f = case_LDR output ?f"
    by (simp add: dispatch_def Let_def opcode_defs)
  also have "\<dots> =
     Inr (output, ?f\<lparr>registers := (registers ?f)(nat (reg_field (IR ?f) 9) := ?v),
                      CC := setcc ?v\<rparr>)"
    using lo hi by (simp add: case_LDR_def access_simps mem_load_in_range)
  finally have d: "dispatch output ?f =
     Inr (output, ?f\<lparr>registers := (registers ?f)(nat (reg_field (IR ?f) 9) := ?v),
                      CC := setcc ?v\<rparr>)" .
  from step_total [OF d] show ?thesis
    by simp
qed

section \<open>The claims\<close>

text \<open>
  C1. Every effective memory address is reduced modulo \<open>2 ^ 16\<close> before it indexes the
  65536-entry memory, so no memory index is out of bounds. The code does not do this for
  the sums it uses directly as an index: \<open>PC + PCoffset\<close> in \<open>LD\<close>, \<open>ST\<close>, \<open>LDI\<close>, \<open>STI\<close> and
  \<open>SR + PCoffset\<close> in \<open>LDR\<close>, \<open>STR\<close> are \<open>int\<close> sums. \<open>LD R0, #-1\<close> fetched from \<open>0xFFFF\<close>
  indexes memory at \<open>-1\<close>, \<open>ST R0, #-1\<close> there stores at \<open>-1\<close>, and \<open>LDR R1, R1, #1\<close> with
  \<open>R1 = 0xFFFF\<close> indexes it at 65536.
\<close>

theorem memory_index_not_reduced:
  "execute_next quiet (poke 0xFFFF 0x21FF (reset\<lparr>PC := 0xFFFF\<rparr>)) =
     Inl (MemoryOutOfBounds (- 1)) \<and>
   execute_next quiet (poke 0xFFFF 0x31FF (reset\<lparr>PC := 0xFFFF\<rparr>)) =
     Inl (MemoryOutOfBounds (- 1)) \<and>
   execute_next quiet (poke 0x3000 0x6241 (set_reg 1 0xFFFF reset)) =
     Inl (MemoryOutOfBounds 65536)"
  by (simp add: model_defs example_defs)

text \<open>
  C2. \<open>STI\<close> stores the source register at the address held in the pointer cell
  \<open>memory[PC + offset9]\<close> and sets \<open>isHalted\<close> exactly when that address is \<open>MCR\<close>. The
  code tests the pointer cell after the store. When the cell points at itself the test
  sees the stored value: with the cell at \<open>0x3001\<close> holding \<open>0x3001\<close> and \<open>R1 = 0xFFFE\<close>
  the machine halts although the store went to \<open>0x3001\<close>; with the cell at \<open>0xFFFE\<close>
  holding \<open>0xFFFE\<close> and \<open>R1 = 0x1234\<close> the store goes to \<open>MCR\<close> and the machine does not
  halt.
\<close>

theorem STI_halt_test_after_store:
  "memory_after 0x3001
     (execute_next quiet (poke 0x3001 0x3001 (poke 0x3000 0xB200 (set_reg 1 0xFFFE reset)))) =
     Some 0xFFFE \<and>
   halted_after
     (execute_next quiet (poke 0x3001 0x3001 (poke 0x3000 0xB200 (set_reg 1 0xFFFE reset)))) =
     Some True \<and>
   memory_after 0xFFFE
     (execute_next quiet
        (poke 0xFFFE 0xFFFE (poke 0xFFFD 0xB200 (set_reg 1 0x1234 (reset\<lparr>PC := 0xFFFD\<rparr>))))) =
     Some 0x1234 \<and>
   halted_after
     (execute_next quiet
        (poke 0xFFFE 0xFFFE (poke 0xFFFD 0xB200 (set_reg 1 0x1234 (reset\<lparr>PC := 0xFFFD\<rparr>))))) =
     Some False"
  by (simp add: model_defs example_defs)

text \<open>
  C3, as amended. \<open>ADD\<close> always completes; it sets \<open>DR\<close> (bits 11 to 9) to \<open>SR1\<close> (bits 8
  to 6) plus the second operand modulo \<open>2 ^ 16\<close> and sets \<open>CC\<close> from the result, where the
  second operand is the sign-extended 5-bit immediate when bit 5 of the instruction is
  set and the register selected by bits 2 to 0 otherwise. The immediate-mode encoding of
  \<open>ADD R0, R1, #2\<close> is \<open>0x1062\<close>: from \<open>R1 = 5\<close> it yields \<open>R0 = 7\<close> and \<open>CC = P\<close>. \<open>0x1042\<close>
  has bit 5 clear; it is \<open>ADD R0, R1, R2\<close> and yields \<open>R0 = 5 + R2\<close> from \<open>R1 = 5\<close>.
\<close>

theorem ADD_semantics:
  assumes "opcode_of (memory s (unat (PC s))) = ADD"
  shows "\<exists>out' s'. execute_next output s = Inr (out', s') \<and>
     registers s' (nat (reg_field (memory s (unat (PC s))) 9)) =
       registers s (nat (reg_field (memory s (unat (PC s))) 6)) +
       (if bit (memory s (unat (PC s))) 5 then signed_take_bit 4 (memory s (unat (PC s)))
        else registers s (unat (memory s (unat (PC s)) AND 7))) \<and>
     CC s' = setcc (registers s' (nat (reg_field (memory s (unat (PC s))) 9))) \<and>
     (memory s (unat (PC s)) = 0x1062 \<and> registers s 1 = 5 \<longrightarrow>
        registers s' 0 = 7 \<and> CC s' = CHR ''P'') \<and>
     (memory s (unat (PC s)) = 0x1042 \<and> registers s 1 = 5 \<longrightarrow>
        registers s' 0 = 5 + registers s 2)"
proof -
  let ?ir = "memory s (unat (PC s))"
  let ?f = "s\<lparr>IR := ?ir, PC := PC s + 1\<rparr>"
  let ?v = "registers s (nat (reg_field ?ir 6)) +
       (if bit ?ir 5 then signed_take_bit 4 ?ir else registers s (unat (?ir AND 7)))"
  from assms have "dispatch output ?f = case_ADD_AND ADD output ?f"
    by (simp add: dispatch_def Let_def opcode_defs)
  then have "dispatch output ?f =
      Inr (output, ?f\<lparr>registers := (registers ?f)(nat (reg_field ?ir 9) := ?v), CC := setcc ?v\<rparr>)"
    by (simp add: case_ADD_AND_eq)
  from step_total [OF this] show ?thesis
    by (auto simp add: reg_field_def setcc_def)
qed

theorem ADD_semantics_witness:
  "opcode_of (memory (poke 0x3000 0x1062 (set_reg 1 5 reset))
     (unat (PC (poke 0x3000 0x1062 (set_reg 1 5 reset))))) = ADD \<and>
   (\<exists>out' s'. execute_next quiet (poke 0x3000 0x1062 (set_reg 1 5 reset)) = Inr (out', s') \<and>
      registers s' 0 = 7 \<and> CC s' = CHR ''P'')"
proof -
  let ?s = "poke 0x3000 0x1062 (set_reg 1 5 reset)"
  have h: "opcode_of (memory ?s (unat (PC ?s))) = ADD"
    by (simp add: example_defs opcode_of_def ADD_def)
  have e: "memory ?s (unat (PC ?s)) = 0x1062 \<and> registers ?s 1 = 5"
    by (simp add: example_defs)
  from ADD_semantics [OF h, of quiet] e h show ?thesis
    by blast
qed

text \<open>
  C3 as stated fails: a step with \<open>IR = 0x1042\<close> from a pre-state with \<open>R1 = 5\<close> (and
  \<open>R2 = 0\<close>) leaves \<open>R0 = 5\<close>, not 7.
\<close>

theorem ADD_0x1042_is_register_mode:
  "registers (poke 0x3000 0x1042 (set_reg 1 5 reset)) 1 = 5 \<and>
   PC (poke 0x3000 0x1042 (set_reg 1 5 reset)) = 0x3000 \<and>
   memory (poke 0x3000 0x1042 (set_reg 1 5 reset)) 0x3000 = 0x1042 \<and>
   register_after 0 (execute_next quiet (poke 0x3000 0x1042 (set_reg 1 5 reset))) = Some 5"
  by (simp add: model_defs example_defs)

text \<open>
  C4. \<open>LDI\<close> reads the pointer cell \<open>memory[PC + offset9]\<close> for every pre-state, and then
  the keyboard or the cell the pointer names. The code indexes the pointer cell with the
  unreduced sum: \<open>LDI R0, #-1\<close> fetched from \<open>0xFFFF\<close> indexes memory at \<open>-1\<close>, and
  \<open>LDI R0, #1\<close> fetched from \<open>0xFFFE\<close> indexes it at 65536, where the claim has the
  pointer cells \<open>0xFFFF\<close> and \<open>0x0000\<close>.
\<close>

theorem LDI_pointer_index_not_reduced:
  "execute_next quiet (poke 0xFFFF 0xA1FF (reset\<lparr>PC := 0xFFFF\<rparr>)) =
     Inl (MemoryOutOfBounds (- 1)) \<and>
   execute_next quiet (poke 0xFFFE 0xA001 (reset\<lparr>PC := 0xFFFE\<rparr>)) =
     Inl (MemoryOutOfBounds 65536)"
  by (simp add: model_defs example_defs)

text \<open>
  C5. After every step, whatever the opcode: if the \<open>DDR\<close> cell (\<open>0xFE06\<close>) is nonzero when
  the instruction has executed, its low 8 bits are written to the console as one
  character and the cell is cleared; and \<open>KBSR\<close> (\<open>0xFE00\<close>) and \<open>DSR\<close> (\<open>0xFE04\<close>) hold
  \<open>0x8000\<close> when the step returns. Nothing else changes after the instruction.
\<close>

theorem devices_served_after_every_step:
  assumes "execute_next output s = Inr (out', s')"
  shows "memory s' (unat KBSR) = 0x8000 \<and> memory s' (unat DSR) = 0x8000 \<and>
     memory s' (unat DDR) = 0 \<and>
     (\<exists>out1 s1. instruction output s = Inr (out1, s1) \<and>
        out' = (if memory s1 (unat DDR) \<noteq> 0
                then out1\<lparr>calls := calls out1 @ [Wechochar (memory s1 (unat DDR) AND 0xff)]\<rparr>
                else out1) \<and>
        s' = s1\<lparr>memory := (memory s1)
                 (unat DDR := 0, unat KBSR := 0x8000, unat DSR := 0x8000)\<rparr>)"
proof -
  from assms obtain out1 s1 where
    d: "dispatch output (s\<lparr>IR := memory s (unat (PC s)), PC := PC s + 1\<rparr>) = Inr (out1, s1)"
    and out': "out' = (if memory s1 0xFE06 \<noteq> 0
                       then wechochar out1 (memory s1 0xFE06 AND 0xff) else out1)"
    and s': "s' = s1\<lparr>memory := (memory s1)(0xFE06 := 0, 0xFE00 := 0x8000, 0xFE04 := 0x8000)\<rparr>"
    unfolding step_Inr by blast
  from d have "instruction output s = Inr (out1, s1)"
    by (simp add: instruction_def fetch_eq and_then_Inr)
  with out' s' show ?thesis
    by (simp add: KBSR_def DSR_def DDR_def wechochar_def)
qed

theorem devices_served_after_every_step_witness:
  "\<exists>out' s'.
     execute_next quiet (poke 0xFE04 7 (poke 0xFE06 0x0141 (poke 0x3000 0xD000 reset))) =
       Inr (out', s') \<and>
     memory s' (unat KBSR) = 0x8000 \<and> memory s' (unat DSR) = 0x8000 \<and>
     memory s' (unat DDR) = 0 \<and> calls out' = [Wechochar 0x41]"
proof -
  let ?s = "poke 0xFE04 7 (poke 0xFE06 0x0141 (poke 0x3000 0xD000 reset))"
  obtain out' s' where h: "execute_next quiet ?s = Inr (out', s')"
    by (simp add: model_defs example_defs)
  from h have "calls out' = [Wechochar 0x41]"
    by (auto simp add: model_defs example_defs)
  with devices_served_after_every_step [OF h] h show ?thesis
    by blast
qed

text \<open>
  C6. \<open>BR\<close> always completes. With \<open>n\<close>, \<open>z\<close>, \<open>p\<close> the bits 11, 10, 9 of the
  instruction, the new \<open>PC\<close> is the incremented \<open>PC\<close> plus the sign-extended 9-bit offset
  when \<open>(n and CC = N) or (z and CC = Z) or (p and CC = P)\<close>, and the incremented \<open>PC\<close>
  otherwise. This holds for every value of \<open>CC\<close>, so for the three condition codes and
  the eight settings of the bits.
\<close>

theorem BR_taken_iff_condition_matches:
  assumes "opcode_of (memory s (unat (PC s))) = BR"
  shows "\<exists>out' s'. execute_next output s = Inr (out', s') \<and>
       PC s' =
         (if (bit (memory s (unat (PC s))) 11 \<and> CC s = CHR ''N'') \<or>
             (bit (memory s (unat (PC s))) 10 \<and> CC s = CHR ''Z'') \<or>
             (bit (memory s (unat (PC s))) 9 \<and> CC s = CHR ''P'')
          then PC s + 1 + signed_take_bit 8 (memory s (unat (PC s)))
          else PC s + 1)"
proof -
  let ?f = "s\<lparr>IR := memory s (unat (PC s)), PC := PC s + 1\<rparr>"
  from assms have "dispatch output ?f = case_BR output ?f"
    by (simp add: dispatch_def Let_def opcode_defs)
  then have "dispatch output ?f =
      Inr (output,
        if (bit (IR ?f) 11 \<and> CC ?f = CHR ''N'') \<or> (bit (IR ?f) 10 \<and> CC ?f = CHR ''Z'') \<or>
           (bit (IR ?f) 9 \<and> CC ?f = CHR ''P'')
        then ?f\<lparr>PC := PC ?f + PCoffset9 (IR ?f)\<rparr> else ?f)"
    by (simp only: case_BR_eq)
  from step_total [OF this] show ?thesis
    by (simp add: PCoffset9_sext)
qed

theorem BR_taken_iff_condition_matches_witness:
  "opcode_of (memory (poke 0x3000 0x05FE reset) (unat (PC (poke 0x3000 0x05FE reset)))) = BR \<and>
   (\<exists>out' s'. execute_next quiet (poke 0x3000 0x05FE reset) = Inr (out', s') \<and>
      PC s' = 0x2FFF) \<and>
   opcode_of (memory (poke 0x3000 0x0BFE reset) (unat (PC (poke 0x3000 0x0BFE reset)))) = BR \<and>
   (\<exists>out' s'. execute_next quiet (poke 0x3000 0x0BFE reset) = Inr (out', s') \<and>
      PC s' = 0x3001)"
proof -
  let ?s = "poke 0x3000 0x05FE reset"
  let ?t = "poke 0x3000 0x0BFE reset"
  have hs: "opcode_of (memory ?s (unat (PC ?s))) = BR"
    by (simp add: example_defs opcode_of_def BR_def)
  have ht: "opcode_of (memory ?t (unat (PC ?t))) = BR"
    by (simp add: example_defs opcode_of_def BR_def)
  from BR_taken_iff_condition_matches [OF hs, of quiet]
  have a: "\<exists>out' s'. execute_next quiet ?s = Inr (out', s') \<and> PC s' = 0x2FFF"
    by (simp add: example_defs)
  from BR_taken_iff_condition_matches [OF ht, of quiet]
  have b: "\<exists>out' s'. execute_next quiet ?t = Inr (out', s') \<and> PC s' = 0x3001"
    by (simp add: example_defs)
  from hs ht a b show ?thesis
    by blast
qed


text \<open>
  C8. The 9-bit offset field is sign-extended to 16 bits before use: for every
  instruction word the offset is the word's low 9 bits with bit 8 copied into bits 9 to
  15, as a number the low 9 bits less 512 when bit 8 is set; so the field \<open>0x1FF\<close>
  becomes \<open>-1\<close> and the field \<open>0x100\<close> becomes \<open>-256\<close>. Every \<open>LEA\<close> sets its destination
  register to the program counter plus that offset, and \<open>LEA\<close> executed with
  \<open>PC = 0x3000\<close> and the field \<open>0x1FF\<close> sets it to \<open>0x2FFF\<close>. Here \<open>PC\<close> is the program
  counter the instruction adds to, the one the fetch has incremented: the implications
  about \<open>s\<close> are about the \<open>switch\<close> entered with that \<open>PC\<close>, those about \<open>t\<close> about the
  whole step, which fetches the instruction from \<open>0x2FFF\<close>.
\<close>

theorem offset9_sign_extension_LEA:
  "PCoffset9 ir = signed_take_bit 8 ir \<and>
   sint (PCoffset9 ir) = uint (take_bit 9 ir) - (if bit ir 8 then 512 else 0) \<and>
   sint (PCoffset9 0x1FF) = - 1 \<and> sint (PCoffset9 0x100) = - 256 \<and>
   (opcode_of (IR s) = LEA \<longrightarrow>
      dispatch output s =
        Inr (output,
             s\<lparr>registers := (registers s)(nat (reg_field (IR s) 9) :=
                   PC s + signed_take_bit 8 (IR s)),
               CC := setcc (PC s + signed_take_bit 8 (IR s))\<rparr>)) \<and>
   (opcode_of (IR s) = LEA \<and> IR s AND 0x1ff = 0x1ff \<and> PC s = 0x3000 \<longrightarrow>
      dispatch output s =
        Inr (output, s\<lparr>registers := (registers s)(nat (reg_field (IR s) 9) := 0x2FFF),
                        CC := CHR ''P''\<rparr>)) \<and>
   (opcode_of (memory t (unat (PC t))) = LEA \<longrightarrow>
      (\<exists>out' t'. execute_next output t = Inr (out', t') \<and> PC t' = PC t + 1 \<and>
         registers t' (nat (reg_field (memory t (unat (PC t))) 9)) =
           PC t + 1 + signed_take_bit 8 (memory t (unat (PC t))) \<and>
         CC t' = setcc (PC t + 1 + signed_take_bit 8 (memory t (unat (PC t)))))) \<and>
   (opcode_of (memory t (unat (PC t))) = LEA \<and> memory t (unat (PC t)) AND 0x1ff = 0x1ff \<and>
    PC t = 0x2FFF \<longrightarrow>
      (\<exists>out' t'. execute_next output t = Inr (out', t') \<and> PC t' = 0x3000 \<and>
         registers t' (nat (reg_field (memory t (unat (PC t))) 9)) = 0x2FFF))"
proof (intro conjI impI)
  show "PCoffset9 ir = signed_take_bit 8 ir"
    by (rule PCoffset9_sext)
  show "sint (PCoffset9 ir) = uint (take_bit 9 ir) - (if bit ir 8 then 512 else 0)"
    by (rule PCoffset9_sint)
  show "sint (PCoffset9 0x1FF) = - 1"
    by (simp add: PCoffset9_def shifted_field_def)
  show "sint (PCoffset9 0x100) = - 256"
    by (simp add: PCoffset9_def shifted_field_def)
next
  assume "opcode_of (IR s) = LEA"
  then show "dispatch output s =
        Inr (output,
             s\<lparr>registers := (registers s)(nat (reg_field (IR s) 9) :=
                   PC s + signed_take_bit 8 (IR s)),
               CC := setcc (PC s + signed_take_bit 8 (IR s))\<rparr>)"
    by (simp add: dispatch_def Let_def opcode_defs case_LEA_eq PCoffset9_sext)
next
  assume a: "opcode_of (IR s) = LEA \<and> IR s AND 0x1ff = 0x1ff \<and> PC s = 0x3000"
  then have "PCoffset9 (IR s) = - 1"
    by (simp add: PCoffset9_def shifted_field_def)
  with a show "dispatch output s =
        Inr (output, s\<lparr>registers := (registers s)(nat (reg_field (IR s) 9) := 0x2FFF),
                        CC := CHR ''P''\<rparr>)"
    by (simp add: dispatch_def Let_def opcode_defs case_LEA_eq setcc_def)
next
  let ?ir = "memory t (unat (PC t))"
  let ?f = "t\<lparr>IR := ?ir, PC := PC t + 1\<rparr>"
  assume op: "opcode_of ?ir = LEA"
  then have "dispatch output ?f = case_LEA output ?f"
    by (simp add: dispatch_def Let_def opcode_defs)
  then have "dispatch output ?f =
      Inr (output,
           ?f\<lparr>registers := (registers ?f)(nat (reg_field ?ir 9) :=
                  PC t + 1 + signed_take_bit 8 ?ir),
              CC := setcc (PC t + 1 + signed_take_bit 8 ?ir)\<rparr>)"
    by (simp add: case_LEA_eq PCoffset9_sext)
  from step_total [OF this]
  show "\<exists>out' t'. execute_next output t = Inr (out', t') \<and> PC t' = PC t + 1 \<and>
         registers t' (nat (reg_field ?ir 9)) = PC t + 1 + signed_take_bit 8 ?ir \<and>
         CC t' = setcc (PC t + 1 + signed_take_bit 8 ?ir)"
    by simp
next
  let ?ir = "memory t (unat (PC t))"
  let ?f = "t\<lparr>IR := ?ir, PC := PC t + 1\<rparr>"
  assume a: "opcode_of ?ir = LEA \<and> ?ir AND 0x1ff = 0x1ff \<and> PC t = 0x2FFF"
  then have op: "opcode_of ?ir = LEA" and m: "?ir AND 0x1ff = 0x1ff" and pc: "PC t = 0x2FFF"
    by blast+
  from m have off: "PCoffset9 ?ir = - 1"
    unfolding PCoffset9_def shifted_field_def by simp
  from op have "dispatch output ?f = case_LEA output ?f"
    by (simp add: dispatch_def Let_def opcode_defs)
  then have "dispatch output ?f =
      Inr (output, ?f\<lparr>registers := (registers ?f)(nat (reg_field ?ir 9) := PC t + 1 + - 1),
                       CC := setcc (PC t + 1 + - 1)\<rparr>)"
    by (simp add: case_LEA_eq off)
  from step_total [OF this] pc
  show "\<exists>out' t'. execute_next output t = Inr (out', t') \<and> PC t' = 0x3000 \<and>
         registers t' (nat (reg_field ?ir 9)) = 0x2FFF"
    by simp
qed

theorem offset9_sign_extension_LEA_witness:
  "opcode_of (IR (reset\<lparr>IR := 0xE1FF\<rparr>)) = LEA \<and> IR (reset\<lparr>IR := 0xE1FF\<rparr>) AND 0x1ff = 0x1ff \<and>
   PC (reset\<lparr>IR := 0xE1FF\<rparr>) = 0x3000 \<and>
   register_after 0 (dispatch quiet (reset\<lparr>IR := 0xE1FF\<rparr>)) = Some 0x2FFF \<and>
   opcode_of (memory (poke 0x2FFF 0xE1FF (reset\<lparr>PC := 0x2FFF\<rparr>)) 0x2FFF) = LEA \<and>
   PC (poke 0x2FFF 0xE1FF (reset\<lparr>PC := 0x2FFF\<rparr>)) = 0x2FFF \<and>
   (\<exists>out' t'. execute_next quiet (poke 0x2FFF 0xE1FF (reset\<lparr>PC := 0x2FFF\<rparr>)) = Inr (out', t') \<and>
      PC t' = 0x3000 \<and> registers t' 0 = 0x2FFF) \<and>
   opcode_of (IR (reset\<lparr>IR := 0xE2FF\<rparr>)) = LEA \<and>
   register_after 1 (dispatch quiet (reset\<lparr>IR := 0xE2FF\<rparr>)) = Some 0x30FF \<and>
   cc_after (dispatch quiet (reset\<lparr>IR := 0xE2FF\<rparr>)) = Some CHR ''P'' \<and>
   opcode_of (memory (poke 0x3000 0xE500 reset) 0x3000) = LEA \<and>
   (\<exists>out' t'. execute_next quiet (poke 0x3000 0xE500 reset) = Inr (out', t') \<and>
      PC t' = 0x3001 \<and> registers t' 2 = 0x2F01 \<and> CC t' = CHR ''P'') \<and>
   sint (PCoffset9 0xE2FF) = 255 \<and> sint (PCoffset9 0xE500) = - 256"
proof -
  let ?s = "reset\<lparr>IR := 0xE1FF\<rparr>"
  let ?t = "poke 0x2FFF 0xE1FF (reset\<lparr>PC := 0x2FFF\<rparr>)"
  let ?s2 = "reset\<lparr>IR := 0xE2FF\<rparr>"
  let ?t2 = "poke 0x3000 0xE500 reset"
  have hs: "opcode_of (IR ?s) = LEA \<and> IR ?s AND 0x1ff = 0x1ff \<and> PC ?s = 0x3000"
    by (simp add: example_defs opcode_of_def LEA_def)
  have ht: "opcode_of (memory ?t (unat (PC ?t))) = LEA \<and>
      memory ?t (unat (PC ?t)) AND 0x1ff = 0x1ff \<and> PC ?t = 0x2FFF"
    by (simp add: example_defs opcode_of_def LEA_def)
  have hs2: "opcode_of (IR ?s2) = LEA"
    by (simp add: example_defs opcode_of_def LEA_def)
  have ht2: "opcode_of (memory ?t2 (unat (PC ?t2))) = LEA"
    by (simp add: example_defs opcode_of_def LEA_def)
  note inst = offset9_sign_extension_LEA [of "0xE2FF" ?s quiet ?t]
  note inst2 = offset9_sign_extension_LEA [of "0xE500" ?s2 quiet ?t2]
  from inst hs have "dispatch quiet ?s =
      Inr (quiet, ?s\<lparr>registers := (registers ?s)(nat (reg_field (IR ?s) 9) := 0x2FFF),
                      CC := CHR ''P''\<rparr>)"
    by blast
  then have a: "register_after 0 (dispatch quiet ?s) = Some 0x2FFF"
    by (simp add: register_after_def reg_field_def reset_def)
  from inst ht have "\<exists>out' t'. execute_next quiet ?t = Inr (out', t') \<and> PC t' = 0x3000 \<and>
         registers t' (nat (reg_field (memory ?t (unat (PC ?t))) 9)) = 0x2FFF"
    by blast
  then have b: "\<exists>out' t'. execute_next quiet ?t = Inr (out', t') \<and> PC t' = 0x3000 \<and>
         registers t' 0 = 0x2FFF"
    by (simp add: example_defs reg_field_def)
  from inst2 hs2 have "dispatch quiet ?s2 =
      Inr (quiet,
           ?s2\<lparr>registers := (registers ?s2)(nat (reg_field (IR ?s2) 9) :=
                   PC ?s2 + signed_take_bit 8 (IR ?s2)),
               CC := setcc (PC ?s2 + signed_take_bit 8 (IR ?s2))\<rparr>)"
    by blast
  then have c: "register_after 1 (dispatch quiet ?s2) = Some 0x30FF \<and>
      cc_after (dispatch quiet ?s2) = Some CHR ''P''"
    by (simp add: register_after_def cc_after_def reg_field_def reset_def setcc_def)
  from inst2 ht2 have "\<exists>out' t'. execute_next quiet ?t2 = Inr (out', t') \<and>
         PC t' = PC ?t2 + 1 \<and>
         registers t' (nat (reg_field (memory ?t2 (unat (PC ?t2))) 9)) =
           PC ?t2 + 1 + signed_take_bit 8 (memory ?t2 (unat (PC ?t2))) \<and>
         CC t' = setcc (PC ?t2 + 1 + signed_take_bit 8 (memory ?t2 (unat (PC ?t2))))"
    by blast
  then have d: "\<exists>out' t'. execute_next quiet ?t2 = Inr (out', t') \<and>
         PC t' = 0x3001 \<and> registers t' 2 = 0x2F01 \<and> CC t' = CHR ''P''"
    by (simp add: example_defs reg_field_def setcc_def)
  from inst have e: "sint (PCoffset9 0xE2FF) = 255"
    by simp
  from inst2 have f: "sint (PCoffset9 0xE500) = - 256"
    by simp
  have pre: "opcode_of (IR ?s) = LEA \<and> IR ?s AND 0x1ff = 0x1ff \<and> PC ?s = 0x3000 \<and>
      opcode_of (memory ?t 0x2FFF) = LEA \<and> PC ?t = 0x2FFF \<and>
      opcode_of (IR ?s2) = LEA \<and> opcode_of (memory ?t2 0x3000) = LEA"
    by (simp add: example_defs opcode_of_def LEA_def)
  from pre a b c d e f show ?thesis
    by blast
qed

text \<open>
  C9. \<open>isHalted\<close> goes from false to true only through an \<open>STI\<close> whose target address is
  \<open>MCR\<close>. The code sets it through an \<open>STI\<close> whose target is another address: \<open>STI R2, #5\<close>
  at \<open>0x4000\<close>, with the pointer cell \<open>0x4006\<close> holding its own address and
  \<open>R2 = 0xFFFE\<close>, stores to \<open>0x4006\<close>, leaves \<open>MCR\<close> untouched, and halts the machine.
\<close>

theorem halt_without_store_to_MCR:
  "isHalted (poke 0x4006 0x4006 (poke 0x4000 0xB405 (set_reg 2 0xFFFE (reset\<lparr>PC := 0x4000\<rparr>)))) =
     False \<and>
   memory (poke 0x4006 0x4006 (poke 0x4000 0xB405 (set_reg 2 0xFFFE (reset\<lparr>PC := 0x4000\<rparr>))))
     0x4006 = 0x4006 \<and>
   memory_after 0x4006
     (execute_next quiet
        (poke 0x4006 0x4006 (poke 0x4000 0xB405 (set_reg 2 0xFFFE (reset\<lparr>PC := 0x4000\<rparr>))))) =
     Some 0xFFFE \<and>
   memory_after 0xFFFE
     (execute_next quiet
        (poke 0x4006 0x4006 (poke 0x4000 0xB405 (set_reg 2 0xFFFE (reset\<lparr>PC := 0x4000\<rparr>))))) =
     Some 0 \<and>
   halted_after
     (execute_next quiet
        (poke 0x4006 0x4006 (poke 0x4000 0xB405 (set_reg 2 0xFFFE (reset\<lparr>PC := 0x4000\<rparr>))))) =
     Some True"
  by (simp add: model_defs example_defs)

text \<open>
  C10. Every access to the register file during a step uses an index inside 0 to 7:
  the indices are the 3-bit fields \<open>(IR >> 9) & 7\<close>, \<open>(IR >> 6) & 7\<close>, \<open>IR & 7\<close> and the
  constant 7, so no step ends in the out-of-range branch of a register access.
\<close>

theorem register_index_in_bounds:
  "execute_next output s \<noteq> Inl (RegisterOutOfBounds i) \<and>
   0 \<le> reg_field (memory s (unat (PC s))) 9 \<and> reg_field (memory s (unat (PC s))) 9 < 8 \<and>
   0 \<le> reg_field (memory s (unat (PC s))) 6 \<and> reg_field (memory s (unat (PC s))) 6 < 8 \<and>
   0 \<le> uint (memory s (unat (PC s)) AND 7) \<and> uint (memory s (unat (PC s)) AND 7) < 8"
  using reg_field_bounds [of "memory s (unat (PC s))" 9]
    reg_field_bounds [of "memory s (unat (PC s))" 6]
    uint_and7_bounds [of "memory s (unat (PC s))"]
  by (simp add: step_fault dispatch_no_reg_fault)

theorem register_index_in_bounds_witness:
  "execute_next quiet (poke 0x3000 0x1FFF (set_reg 7 1 reset)) \<noteq> Inl (RegisterOutOfBounds 8) \<and>
   register_after 7 (execute_next quiet (poke 0x3000 0x1FFF (set_reg 7 1 reset))) = Some 0"
proof -
  have "register_after 7 (execute_next quiet (poke 0x3000 0x1FFF (set_reg 7 1 reset))) = Some 0"
    by (simp add: model_defs example_defs)
  with register_index_in_bounds [of quiet "poke 0x3000 0x1FFF (set_reg 7 1 reset)" 8]
  show ?thesis
    by blast
qed

end
